theory Spec2Isabelle
  imports Main
begin

section \<open>Time contexts (ibis/pandas/core.py, lines 584-657)\<close>

text \<open>
  A pandas timestamp is modelled by its position on the time line, an integer. A canonical
  time context is the pair \<open>(begin, end)\<close> that \<open>canonicalize_context\<close> returns.
\<close>

type_synonym timestamp = int
type_synonym timecontext = "timestamp \<times> timestamp"

datatype TimeContextRelation = SUBSET | SUPERSET | OVERLAP | NONOVERLAP

text \<open>\<open>compare_timecontext(cur_context, old_context)\<close>: the if/elif chain, in its order.\<close>

fun compare_timecontext :: "timecontext \<Rightarrow> timecontext \<Rightarrow> TimeContextRelation" where
  "compare_timecontext (begin', end') (old_begin, old_end) =
     (if old_begin \<le> begin' \<and> old_end \<ge> end' then SUBSET
      else if old_begin \<ge> begin' \<and> old_end \<le> end' then SUPERSET
      else if old_end < begin' \<or> end' < old_begin then NONOVERLAP
      else OVERLAP)"

text \<open>
  What a caller may hand to \<open>canonicalize_context\<close>. A bound is an instance of
  \<open>pd.Timestamp\<close>, with or without a time zone, or a value of another type that
  denotes a point in time (\<open>datetime.datetime\<close>, a time string), or anything else. The
  argument itself either unpacks into a sequence of bounds or cannot be iterated at all.
\<close>

datatype tz = Naive | Aware

datatype bound = PdTimestamp tz timestamp | Datetime timestamp | TimeString timestamp | NotATime

datatype tc_input = Unpackable "bound list" | NotIterable

datatype ibis_msg = ShouldSpecifyBeginEnd | BeginNotTimestamp | EndNotTimestamp
  | BeginAfterEnd | ArgTimecontextsDiffer

text \<open>\<open>isinstance(b, pd.Timestamp)\<close>, with the timestamp when it holds.\<close>

fun as_pd_timestamp :: "bound \<Rightarrow> (tz \<times> timestamp) option" where
  "as_pd_timestamp (PdTimestamp z t) = Some (z, t)"
| "as_pd_timestamp b = None"

text \<open>
  The bounds the specification calls coercible to the common timestamp representation:
  every value that denotes a point in time (a \<open>datetime\<close> and a time string carry no
  time zone). This definition follows the specification's words; \<open>canonicalize_context\<close>
  below follows the source.
\<close>

fun spec_coercible :: "bound \<Rightarrow> (tz \<times> timestamp) option" where
  "spec_coercible (PdTimestamp z t) = Some (z, t)"
| "spec_coercible (Datetime t) = Some (Naive, t)"
| "spec_coercible (TimeString t) = Some (Naive, t)"
| "spec_coercible NotATime = None"

section \<open>Expression trees and values\<close>

text \<open>
  The classes of operation the evaluator distinguishes by \<open>isinstance\<close>:
  \<open>ops.Literal\<close>, \<open>ops.TableColumn\<close>, \<open>ops.TableNode\<close>, and every other node.
  A node carries an identity and its ordered inputs. An input is an expression (the only
  input with an \<open>op\<close> attribute), a client, a data type, \<open>None\<close>, a window, a tuple, a
  scalar, or a value of any other type (a list, a string, a schema).
\<close>

datatype op_class = Literal | TableColumn | TableNode | OtherNode

datatype node = Node (op_class_of: op_class) (node_id: nat) (inputs: "arg list")
  and arg = Expr node | ClientArg nat | DataTypeArg nat | NoneArg | WindowArg nat
    | TupleArg "nat list" | ScalarArg int | OpaqueArg nat

text \<open>
  \<open>is_computable_input\<close>: False without a specific override; the overrides are registered
  for clients, expressions, data types, \<open>None\<close>, windows, tuples and the scalar types.
\<close>

fun is_computable_input :: "arg \<Rightarrow> bool" where
  "is_computable_input (OpaqueArg x) = False"
| "is_computable_input a = True"

text \<open>\<open>hasattr(arg, 'op')\<close> and \<open>arg.op()\<close>.\<close>

fun arg_op :: "arg \<Rightarrow> node option" where
  "arg_op (Expr n) = Some n"
| "arg_op a = None"

text \<open>
  Results. A table has an index (with an optional name) and named columns of cells; a
  column has an index and its cells. Cells and index labels are integers.
\<close>

record frame =
  df_index_name :: "string option"
  df_index :: "int list"
  df_columns :: "(string \<times> int list) list"

record series =
  sr_index :: "int list"
  sr_values :: "int list"

datatype pyval = PyNone | DataFrame frame | Series series | ScalarV int | ObjV arg

text \<open>A raw input used as a value: \<open>None\<close> is \<open>None\<close>, a scalar is a scalar.\<close>

fun value_of_arg :: "arg \<Rightarrow> pyval" where
  "value_of_arg NoneArg = PyNone"
| "value_of_arg (ScalarArg i) = ScalarV i"
| "value_of_arg a = ObjV a"

datatype error = IbisError ibis_msg | UnboundExpressionError node
  | OperatorNotImplemented node | TypeError | KeyError | ValueError | AssertionError
  | FileNotFoundError | BackendError nat

section \<open>Scope (ibis/pandas/core.py, lines 660-722)\<close>

text \<open>
  A scope is a dictionary. Its keys are nodes and, for the raw inputs that
  \<open>execute_until_in_scope\<close> wraps, the inputs themselves.
\<close>

datatype key = OpKey node | RawKey arg

record scope_entry =
  entry_value :: pyval
  entry_timecontext :: "timecontext option"

type_synonym scope = "key \<rightharpoonup> scope_entry"

definition scope_item :: "key \<Rightarrow> pyval \<Rightarrow> timecontext option \<Rightarrow> scope" where
  "scope_item k result tc = [k \<mapsto> \<lparr>entry_value = result, entry_timecontext = tc\<rparr>]"

text \<open>
  \<open>get_scope(scope, op, timecontext=None)\<close>. A miss is the value \<open>None\<close>. Comparing
  with an entry that stores no time context unpacks \<open>None\<close>, a \<open>TypeError\<close>.
\<close>

definition get_scope :: "scope \<Rightarrow> node \<Rightarrow> timecontext option \<Rightarrow> error + pyval" where
  "get_scope scope op tc =
     (case scope (OpKey op) of
        None \<Rightarrow> Inr PyNone
      | Some e \<Rightarrow>
         (case tc of
            None \<Rightarrow> Inr (entry_value e)
          | Some cur \<Rightarrow>
             if op_class_of op = TableColumn \<or> op_class_of op = TableNode then
               (case entry_timecontext e of
                  None \<Rightarrow> Inl TypeError
                | Some old \<Rightarrow>
                    if compare_timecontext cur old = SUBSET then Inr (entry_value e)
                    else Inr PyNone)
             else Inr PyNone))"


text \<open>
  \<open>canonicalize_context\<close>: unpack into exactly two bounds, require each to be an instance
  of \<open>pd.Timestamp\<close>, require \<open>begin \<le> end\<close>, and return the pair as it is. The
  comparison \<open>begin > end\<close> of a timestamp with a time zone and one without raises a
  \<open>TypeError\<close>, which the function does not catch. Both bounds of the pair returned are
  of one kind, so its time line positions are all that later comparisons need.
\<close>

fun canonicalize_context :: "tc_input \<Rightarrow> error + timecontext" where
  "canonicalize_context NotIterable = Inl (IbisError ShouldSpecifyBeginEnd)"
| "canonicalize_context (Unpackable [b, e]) =
     (case as_pd_timestamp b of
        None \<Rightarrow> Inl (IbisError BeginNotTimestamp)
      | Some (begin_tz, begin') \<Rightarrow>
         (case as_pd_timestamp e of
            None \<Rightarrow> Inl (IbisError EndNotTimestamp)
          | Some (end_tz, end') \<Rightarrow>
              if begin_tz \<noteq> end_tz then Inl TypeError
              else if begin' > end' then Inl (IbisError BeginAfterEnd)
              else Inr (begin', end')))"
| "canonicalize_context (Unpackable bs) = Inl (IbisError ShouldSpecifyBeginEnd)"

text \<open>
  The specification's canonicalize, from its words: it succeeds exactly on a pair of bounds
  coercible to a common comparable representation with \<open>begin \<le> end\<close>.
\<close>

definition spec_canonicalize_succeeds :: "tc_input \<Rightarrow> bool" where
  "spec_canonicalize_succeeds x =
     (case x of
        Unpackable [b, e] \<Rightarrow>
          (case (spec_coercible b, spec_coercible e) of
             (Some (begin_tz, begin'), Some (end_tz, end')) \<Rightarrow>
               begin_tz = end_tz \<and> begin' \<le> end'
           | _ \<Rightarrow> False)
      | _ \<Rightarrow> False)"

section \<open>Registered implementations and the call log\<close>

text \<open>
  The dispatch tables of \<open>ibis.pandas.dispatch\<close> and \<open>find_backends\<close> are parameters of
  the evaluator. Every registered implementation may raise. The aggregation context and
  the clients are threaded through unchanged.
\<close>

datatype aggcontext = Summarize | OtherAggcontext nat

record env =
  env_aggcontext :: aggcontext
  env_clients :: "nat list"

record hooks =
  execute_literal :: "node \<Rightarrow> env \<Rightarrow> error + pyval"
  execute_node :: "node \<Rightarrow> pyval list \<Rightarrow> scope \<Rightarrow> timecontext option \<Rightarrow> env \<Rightarrow> error + pyval"
  pre_execute :: "node \<Rightarrow> scope \<Rightarrow> timecontext option \<Rightarrow> env \<Rightarrow> error + scope"
  post_execute :: "node \<Rightarrow> pyval \<Rightarrow> scope \<Rightarrow> timecontext option \<Rightarrow> env \<Rightarrow> error + pyval"
  compute_time_context :: "node \<Rightarrow> nat \<Rightarrow> timecontext \<Rightarrow> error + timecontext option list"
  find_backends :: "node \<Rightarrow> nat list"

text \<open>
  Modelled from the spec: the dispatch of \<open>execute_node\<close> (\<open>ibis.pandas.dispatch\<close>) is
  not among the sources. \<open>registry\<close> gives the implementation registered for a node and
  the values of its inputs, if there is one. Without one, the spec knows two errors:
  unbound data, when the recursion reaches a sub-expression with no reachable concrete
  data, surfaced with that sub-expression; and an unregistered operator, when no entry
  matches the operator and the sources of its inputs. A node that was given no value at all
  has no data bound to it and raises the first; a node that was given values raises the
  second.
\<close>

definition dispatch_execute_node ::
    "(node \<Rightarrow> pyval list \<Rightarrow> (scope \<Rightarrow> timecontext option \<Rightarrow> env \<Rightarrow> error + pyval) option) \<Rightarrow>
     node \<Rightarrow> pyval list \<Rightarrow> scope \<Rightarrow> timecontext option \<Rightarrow> env \<Rightarrow> error + pyval" where
  "dispatch_execute_node registry op data scope tc env =
     (case registry op data of
        Some implementation \<Rightarrow> implementation scope tc env
      | None \<Rightarrow>
          if data = [] then Inl (UnboundExpressionError op)
          else Inl (OperatorNotImplemented op))"

text \<open>
  Each call of a registered implementation is recorded, in the order the calls are made.
  A computation takes the log so far and returns its result, or the error it raised, and
  the extended log.
\<close>

datatype event = ExecuteLiteral node | ComputeTimeContext node | PreExecute node
  | ExecuteNode node "pyval list" "timecontext option" | PostExecute node

type_synonym 'a traced = "event list \<Rightarrow> (error + 'a) \<times> event list"

definition done_with :: "error + 'a \<Rightarrow> 'a traced" where
  "done_with r = (\<lambda>log. (r, log))"

definition logged_call :: "event \<Rightarrow> error + 'a \<Rightarrow> 'a traced" where
  "logged_call ev r = (\<lambda>log. (r, log @ [ev]))"

definition and_then :: "'a traced \<Rightarrow> ('a \<Rightarrow> 'b traced) \<Rightarrow> 'b traced" where
  "and_then m f = (\<lambda>log. case m log of (Inl e, log') \<Rightarrow> (Inl e, log') | (Inr x, log') \<Rightarrow> f x log')"

lemma and_then_cong [fundef_cong]:
  "m = m' \<Longrightarrow> (\<And>x. f x = f' x) \<Longrightarrow> and_then m f = and_then m' f'"
proof -
  assume m: "m = m'" and f: "\<And>x. f x = f' x"
  from f have "f = f'" by (rule ext)
  with m show ?thesis by simp
qed

section \<open>The evaluator (ibis/pandas/core.py, lines 202-534)\<close>

text \<open>
  The default \<open>compute_time_context\<close> of the pandas backend, and the one of the pyspark
  backend (ibis/pyspark/timecontext.py).
\<close>

definition compute_time_context_default :: "node \<Rightarrow> timecontext option \<Rightarrow> timecontext option list" where
  "compute_time_context_default node tc = map (\<lambda>arg. tc) (filter is_computable_input (inputs node))"

definition pyspark_compute_time_context_default ::
    "node \<Rightarrow> timecontext option \<Rightarrow> timecontext option list" where
  "pyspark_compute_time_context_default node tc = map (\<lambda>arg. tc) (inputs node)"

text \<open>
  The list \<open>data\<close> of lines 382-385: an expression input is looked up in the merged scope
  by \<open>get_scope(new_scope, arg.op())\<close>, with no time context; a raw input is passed as it
  is.
\<close>

fun gather_data :: "scope \<Rightarrow> arg list \<Rightarrow> error + pyval list" where
  "gather_data new_scope [] = Inr []"
| "gather_data new_scope (a # rest) =
     (case (case arg_op a of
              Some n \<Rightarrow> get_scope new_scope n None
            | None \<Rightarrow> Inr (value_of_arg a)) of
        Inl e \<Rightarrow> Inl e
      | Inr v \<Rightarrow>
         (case gather_data new_scope rest of
            Inl e \<Rightarrow> Inl e
          | Inr vs \<Rightarrow> Inr (v # vs)))"

text \<open>
  The specification's gathering step, from its words: each computable input is looked up
  under the time context assigned to that input.
\<close>

fun spec_gather_data :: "scope \<Rightarrow> (arg \<times> timecontext option) list \<Rightarrow> error + pyval list" where
  "spec_gather_data new_scope [] = Inr []"
| "spec_gather_data new_scope ((a, tc) # rest) =
     (case (case arg_op a of
              Some n \<Rightarrow> get_scope new_scope n tc
            | None \<Rightarrow> Inr (value_of_arg a)) of
        Inl e \<Rightarrow> Inl e
      | Inr v \<Rightarrow>
         (case spec_gather_data new_scope rest of
            Inl e \<Rightarrow> Inl e
          | Inr vs \<Rightarrow> Inr (v # vs)))"

text \<open>
  \<open>execute_until_in_scope\<close>, and the list comprehension of lines 355-368 as
  \<open>execute_args\<close>: every element is evaluated from the same \<open>new_scope\<close>, in the order of
  the list, and the first exception ends the comprehension. The three assertions at the
  head of the function hold by typing. \<open>post_execute'\<close> is the partial application that
  \<open>execute_with_scope\<close> builds.
\<close>

function execute_until_in_scope ::
    "hooks \<Rightarrow> env \<Rightarrow> (node \<Rightarrow> pyval \<Rightarrow> timecontext option \<Rightarrow> error + pyval) \<Rightarrow>
     node \<Rightarrow> scope \<Rightarrow> timecontext option \<Rightarrow> scope traced"
  and execute_args ::
    "hooks \<Rightarrow> env \<Rightarrow> (node \<Rightarrow> pyval \<Rightarrow> timecontext option \<Rightarrow> error + pyval) \<Rightarrow>
     (arg \<times> timecontext option) list \<Rightarrow> scope \<Rightarrow> scope list traced"
where
  "execute_until_in_scope h env post_execute' op scope tc =
    (if op_class_of op = Literal then
       and_then (logged_call (ExecuteLiteral op) (execute_literal h op env)) (\<lambda>v.
       done_with (Inr (scope_item (OpKey op) v tc)))
     else
       and_then (done_with (get_scope scope op tc)) (\<lambda>hit.
       if hit \<noteq> PyNone then done_with (Inr scope) else
       let computable_args = filter is_computable_input (inputs op) in
       and_then (case tc of
                   Some t \<Rightarrow> logged_call (ComputeTimeContext op)
                               (compute_time_context h op (length computable_args) t)
                 | None \<Rightarrow> done_with (Inr (replicate (length computable_args) None)))
         (\<lambda>arg_timecontexts.
       and_then (logged_call (PreExecute op) (pre_execute h op scope tc env))
         (\<lambda>pre_executed_scope.
       let new_scope = scope ++ pre_executed_scope in
       and_then (done_with (get_scope new_scope op tc)) (\<lambda>hit'.
       if hit' \<noteq> PyNone then done_with (Inr new_scope) else
       if length arg_timecontexts \<noteq> length computable_args then
         done_with (Inl (IbisError ArgTimecontextsDiffer))
       else
       and_then (execute_args h env post_execute' (zip computable_args arg_timecontexts) new_scope)
         (\<lambda>scopes.
       if scopes = [] \<and> computable_args \<noteq> [] then done_with (Inl (UnboundExpressionError op))
       else
       if length computable_args \<noteq> length scopes then done_with (Inl AssertionError) else
       let new_scope = foldl (++) new_scope scopes in
       and_then (done_with (gather_data new_scope computable_args)) (\<lambda>data.
       and_then (logged_call (ExecuteNode op data tc) (execute_node h op data scope tc env))
         (\<lambda>result.
       and_then (logged_call (PostExecute op) (post_execute' op result tc)) (\<lambda>computed.
       done_with (Inr (scope_item (OpKey op) computed tc)))))))))))"
| "execute_args h env post_execute' [] new_scope = done_with (Inr [])"
| "execute_args h env post_execute' ((a, tc) # rest) new_scope =
     and_then (case arg_op a of
                 Some n \<Rightarrow> execute_until_in_scope h env post_execute' n new_scope tc
               | None \<Rightarrow> done_with (Inr (scope_item (RawKey a) (value_of_arg a) tc))) (\<lambda>s.
     and_then (execute_args h env post_execute' rest new_scope) (\<lambda>ss.
     done_with (Inr (s # ss))))"
  by pat_completeness auto

lemma arg_op_size: "arg_op a = Some n \<Longrightarrow> size n < size a"
  by (cases a) auto

lemma size_list_zip_filter:
  "size_list (\<lambda>p. size (fst p)) (zip (filter P xs) ys) \<le> size_list size (xs :: arg list)"
proof (induction xs arbitrary: ys)
  case Nil
  then show ?case by simp
next
  case (Cons x xs)
  show ?case
  proof (cases "P x")
    case True
    show ?thesis
    proof (cases ys)
      case Nil
      then show ?thesis using True by simp
    next
      case (Cons y ys')
      then show ?thesis using True Cons.IH [of ys'] by simp
    qed
  next
    case False
    then show ?thesis using Cons.IH [of ys] by simp
  qed
qed

termination execute_until_in_scope
  apply (relation "measure (\<lambda>x. case x of
      Inl (h, env, pe, op, scope, tc) \<Rightarrow> size op
    | Inr (h, env, pe, xs, scope) \<Rightarrow> size_list (\<lambda>p. size (fst p)) xs)")
     apply simp
  subgoal for h env pe op scope tc x xa xb
    using size_list_zip_filter [of is_computable_input "inputs op" xb]
    by (cases op) simp
  subgoal by (simp add: arg_op_size less_SucI trans_less_add1)
  subgoal by simp
  done

declare execute_until_in_scope.simps [simp del]

text \<open>
  \<open>execute_with_scope\<close>. An expression is identified with its node (\<open>expr.op()\<close>).
  \<open>post_execute\<close> is bound to the scope this function received, not to the scope the
  recursion builds.
\<close>

definition execute_with_scope ::
    "hooks \<Rightarrow> node \<Rightarrow> scope \<Rightarrow> timecontext option \<Rightarrow> aggcontext option \<Rightarrow>
     nat list option \<Rightarrow> pyval traced" where
  "execute_with_scope h expr scope tc aggcontext clients =
    (let op = expr;
         clients = (case clients of None \<Rightarrow> find_backends h expr | Some cs \<Rightarrow> cs);
         aggcontext = (case aggcontext of None \<Rightarrow> Summarize | Some a \<Rightarrow> a);
         env = \<lparr>env_aggcontext = aggcontext, env_clients = clients\<rparr> in
     and_then (logged_call (PreExecute op) (pre_execute h op scope tc env))
       (\<lambda>pre_executed_scope.
     let new_scope = scope ++ pre_executed_scope in
     and_then (execute_until_in_scope h env
                 (\<lambda>op' result tc'. post_execute h op' result scope tc' env) expr new_scope tc)
       (\<lambda>result_scope.
     done_with (case result_scope (OpKey op) of
                  None \<Rightarrow> Inl KeyError
                | Some e \<Rightarrow> Inr (entry_value e)))))"

text \<open>
  \<open>main_execute\<close>, the implementation of \<open>execute\<close> for expressions. A key of \<open>params\<close>
  with an \<open>op\<close> attribute is stored under its node, any other key under itself.
\<close>

definition params_key :: "arg \<Rightarrow> key" where
  "params_key k = (case arg_op k of Some n \<Rightarrow> OpKey n | None \<Rightarrow> RawKey k)"

definition main_execute ::
    "hooks \<Rightarrow> node \<Rightarrow> (arg \<times> pyval) list option \<Rightarrow> scope option \<Rightarrow> tc_input option \<Rightarrow>
     aggcontext option \<Rightarrow> pyval traced" where
  "main_execute h expr params scope timecontext aggcontext =
    (let scope = (case scope of None \<Rightarrow> Map.empty | Some s \<Rightarrow> s) in
     and_then (done_with (case timecontext of
                            None \<Rightarrow> Inr None
                          | Some t \<Rightarrow>
                             (case canonicalize_context t of
                                Inl e \<Rightarrow> Inl e
                              | Inr c \<Rightarrow> Inr (Some c)))) (\<lambda>timecontext.
     let params = (case params of None \<Rightarrow> [] | Some ps \<Rightarrow> ps);
         additional_scope =
           foldl (\<lambda>acc (k, v). acc ++ scope_item (params_key k) v timecontext) Map.empty params;
         new_scope = scope ++ additional_scope in
     execute_with_scope h expr new_scope timecontext aggcontext None))"

subsection \<open>The pandas operations of \<open>execute_and_reset\<close>\<close>

text \<open>
  pandas is a library outside the repository. The three operations that
  \<open>execute_and_reset\<close> applies are modelled from the documented behaviour of pandas 1.x.

  \<open>DataFrame.reset_index()\<close> inserts the old index as the first column, under the name of
  the index, or \<open>index\<close> (\<open>level_0\<close> when a column \<open>index\<close> exists) for an index without
  a name; it raises \<open>ValueError\<close> when a column of that name exists already. The new index
  is \<open>0, 1, ..., n - 1\<close>.

  \<open>df.loc[:, names]\<close> keeps all rows and selects the columns labelled by \<open>names\<close>, in the
  order of \<open>names\<close>; a label that is no column raises \<open>KeyError\<close>.

  \<open>Series.reset_index(drop=True)\<close> replaces the index by \<open>0, 1, ..., n - 1\<close>.
\<close>

definition index_column_name :: "frame \<Rightarrow> string" where
  "index_column_name df =
    (case df_index_name df of
       Some n \<Rightarrow> n
     | None \<Rightarrow> if ''index'' \<in> set (map fst (df_columns df)) then ''level_0'' else ''index'')"

definition reset_index :: "frame \<Rightarrow> error + frame" where
  "reset_index df =
    (let name = index_column_name df in
     if name \<in> set (map fst (df_columns df)) then Inl ValueError
     else Inr \<lparr>df_index_name = None,
               df_index = map int [0..<length (df_index df)],
               df_columns = (name, df_index df) # df_columns df\<rparr>)"

definition loc_columns :: "frame \<Rightarrow> string list \<Rightarrow> error + frame" where
  "loc_columns df names =
    (if \<not> set names \<subseteq> set (map fst (df_columns df)) then Inl KeyError
     else Inr (df\<lparr>df_columns :=
                    concat (map (\<lambda>n. filter (\<lambda>c. fst c = n) (df_columns df)) names)\<rparr>))"

definition series_reset_index_drop :: "series \<Rightarrow> series" where
  "series_reset_index_drop s = s\<lparr>sr_index := map int [0..<length (sr_index s)]\<rparr>"

text \<open>
  \<open>execute_and_reset\<close>. \<open>schema_names expr\<close> is \<open>expr.schema().names\<close>, a datum of the
  expression tree.
\<close>

definition execute_and_reset ::
    "hooks \<Rightarrow> (node \<Rightarrow> string list) \<Rightarrow> node \<Rightarrow> (arg \<times> pyval) list option \<Rightarrow> scope option \<Rightarrow>
     tc_input option \<Rightarrow> aggcontext option \<Rightarrow> pyval traced" where
  "execute_and_reset h schema_names expr params scope timecontext aggcontext =
     and_then (main_execute h expr params scope timecontext aggcontext) (\<lambda>result.
     done_with (case result of
                  DataFrame r \<Rightarrow>
                    (case reset_index r of
                       Inl e \<Rightarrow> Inl e
                     | Inr df \<Rightarrow>
                        (case loc_columns df (schema_names expr) of
                           Inl e \<Rightarrow> Inl e
                         | Inr projected \<Rightarrow> Inr (DataFrame projected)))
                | Series s \<Rightarrow> Inr (Series (series_reset_index_drop s))
                | _ \<Rightarrow> Inr result))"

section \<open>The CSV client's pre-execution of a selection (ibis/file/csv.py, lines 16-24, 101-129)\<close>

text \<open>
  A file is its named columns, in the order of the header. A schema gives each of its
  columns its pandas type, of which \<open>_read_csv\<close> distinguishes \<open>datetime64[ns]\<close> from
  every other.
\<close>

type_synonym filesystem = "string \<rightharpoonup> (string \<times> int list) list"

datatype dtype = DatetimeNs | OtherDtype

type_synonym schema = "(string \<times> dtype) list"

text \<open>
  \<open>_read_csv(path, schema, **kwargs)\<close>: the columns of the schema typed
  \<open>datetime64[ns]\<close> are passed to \<open>pandas.read_csv\<close> as \<open>parse_dates\<close>, the types of the
  other columns as \<open>dtype\<close>, with \<open>usecols\<close> and \<open>nrows\<close> among the keyword arguments.
  pandas is outside the repository; \<open>read_csv\<close> with \<open>header=0\<close> is modelled from the
  documented behaviour of pandas 1.x: with \<open>usecols\<close> it reads the listed columns only, in
  the order of the file, and raises \<open>ValueError\<close> when a listed column is not in the
  header; it raises \<open>ValueError\<close> when a column of \<open>parse_dates\<close> is not among the columns
  it reads; with \<open>nrows\<close> it reads at most that many rows. The types of the cells are not
  distinguished in the model.
\<close>

definition read_csv ::
    "filesystem \<Rightarrow> string \<Rightarrow> schema \<Rightarrow> string list option \<Rightarrow> nat option \<Rightarrow> error + frame" where
  "read_csv fs path schema usecols nrows =
    (let dates = map fst (filter (\<lambda>s. snd s = DatetimeNs) schema) in
     case fs path of
       None \<Rightarrow> Inl FileNotFoundError
     | Some file_columns \<Rightarrow>
        (let n = (case file_columns of [] \<Rightarrow> 0 | c # cs \<Rightarrow> length (snd c));
             n = (case nrows of None \<Rightarrow> n | Some k \<Rightarrow> min k n);
             selected = (case usecols of
                           None \<Rightarrow> Inr file_columns
                         | Some u \<Rightarrow>
                             if \<not> set u \<subseteq> set (map fst file_columns) then Inl ValueError
                             else Inr (filter (\<lambda>c. fst c \<in> set u) file_columns)) in
         case selected of
           Inl e \<Rightarrow> Inl e
         | Inr cols \<Rightarrow>
             if \<not> set dates \<subseteq> set (map fst cols) then Inl ValueError
             else Inr \<lparr>df_index_name = None, df_index = map int [0..<n],
                       df_columns = map (\<lambda>c. (fst c, take n (snd c))) cols\<rparr>))"

text \<open>
  \<open>pd.Index(usecols) & header.columns\<close>: the labels of \<open>usecols\<close> that are labels of the
  header.
\<close>

definition index_and :: "string list \<Rightarrow> string list \<Rightarrow> string list" where
  "index_and usecols header_columns = filter (\<lambda>c. c \<in> set header_columns) usecols"

record csv_client =
  dictionary :: "string \<rightharpoonup> string"

text \<open>
  A selection node: \<open>op.table.op()\<close>, and \<open>op.selections\<close>, each selection given by the
  name that \<open>getattr(s.op(), 'name', None) or s.get_name()\<close> resolves to.
\<close>

record selection =
  sel_table :: node
  sel_selections :: "string list"

text \<open>
  The body of the loop up to the call of \<open>make_scope\<close>, lines 107-125: the frame read for
  one table. The attributes \<open>name\<close> and \<open>schema\<close> of a table are parameters.
\<close>

definition csv_read_selected ::
    "filesystem \<Rightarrow> (node \<Rightarrow> string) \<Rightarrow> (node \<Rightarrow> schema) \<Rightarrow> csv_client \<Rightarrow> selection \<Rightarrow> node \<Rightarrow>
     error + frame" where
  "csv_read_selected fs table_name table_schema client op table =
    (case dictionary client (table_name table) of
       None \<Rightarrow> Inl KeyError
     | Some path \<Rightarrow>
        (case (if sel_selections op \<noteq> [] then
                 (case read_csv fs path (table_schema table) None (Some 1) of
                    Inl e \<Rightarrow> Inl e
                  | Inr header \<Rightarrow>
                      let usecols = sel_selections op in
                      if length (index_and usecols (map fst (df_columns header))) \<noteq> length usecols
                      then Inr None
                      else Inr (Some usecols))
               else Inr None) of
           Inl e \<Rightarrow> Inl e
         | Inr usecols \<Rightarrow> read_csv fs path (table_schema table) usecols None))"

text \<open>
  The class \<open>Scope\<close> of \<open>ibis.common.scope\<close> is not among the sources.
  \<open>Scope.make_scope\<close> is taken to build the one-entry scope of \<open>scope_item\<close>, and
  \<open>t not in scope\<close> to test whether the scope has an entry for \<open>t\<close>. Line 121 calls
  \<open>ops.merge_scope\<close> and discards what it returns; what \<open>ops\<close> holds after that statement
  is the parameter \<open>ops_after_merge\<close> of the loop. One candidate is a \<open>merge_scope\<close> that
  merges into its receiver, the later entry winning.
\<close>

definition merge_scope_in_place :: "scope \<Rightarrow> scope \<Rightarrow> scope" where
  "merge_scope_in_place ops other_scope = ops ++ other_scope"

text \<open>
  Modelled from the spec: the class \<open>Scope\<close> is not among the sources. The spec's
  \<open>merge(scopeA, scopeB) -> Scope\<close> returns the merged scope and leaves its arguments as
  they are, so that \<open>ops\<close> is unchanged by a call whose result is discarded.
\<close>

definition merge_scope_returned :: "scope \<Rightarrow> scope \<Rightarrow> scope" where
  "merge_scope_returned ops other_scope = ops"

fun csv_read_tables ::
    "filesystem \<Rightarrow> (node \<Rightarrow> string) \<Rightarrow> (node \<Rightarrow> schema) \<Rightarrow> (scope \<Rightarrow> scope \<Rightarrow> scope) \<Rightarrow>
     csv_client \<Rightarrow> selection \<Rightarrow> timecontext option \<Rightarrow> node list \<Rightarrow> scope \<Rightarrow> error + scope" where
  "csv_read_tables fs table_name table_schema ops_after_merge client op tc [] ops = Inr ops"
| "csv_read_tables fs table_name table_schema ops_after_merge client op tc (table # tables) ops =
     (case csv_read_selected fs table_name table_schema client op table of
        Inl e \<Rightarrow> Inl e
      | Inr df \<Rightarrow>
          csv_read_tables fs table_name table_schema ops_after_merge client op tc tables
            (ops_after_merge ops (scope_item (OpKey table) (DataFrame df) tc)))"

text \<open>
  \<open>csv_pre_execute_selection\<close>. \<open>physical_tables\<close> (of
  \<open>ibis.pandas.execution.selection\<close>) is a parameter.
\<close>

definition csv_pre_execute_selection ::
    "filesystem \<Rightarrow> (node \<Rightarrow> node list) \<Rightarrow> (node \<Rightarrow> string) \<Rightarrow> (node \<Rightarrow> schema) \<Rightarrow>
     (scope \<Rightarrow> scope \<Rightarrow> scope) \<Rightarrow> selection \<Rightarrow> csv_client \<Rightarrow> scope \<Rightarrow> timecontext option \<Rightarrow>
     error + scope" where
  "csv_pre_execute_selection fs physical_tables table_name table_schema ops_after_merge
     op client scope tc =
    (let tables = filter (\<lambda>t. OpKey t \<notin> dom scope) (physical_tables (sel_table op)) in
     csv_read_tables fs table_name table_schema ops_after_merge client op tc tables Map.empty)"

section \<open>An example backend\<close>

text \<open>
  A small set of registered implementations on which the theorems below are exercised:
  a literal evaluates to its identity, a table node that is given no value has no
  implementation registered, every other node returns the number of values it received,
  \<open>pre_execute\<close> and \<open>post_execute\<close> are the defaults, and \<open>compute_time_context\<close> is the
  default of the pandas backend.
\<close>

definition example_registry ::
    "node \<Rightarrow> pyval list \<Rightarrow> (scope \<Rightarrow> timecontext option \<Rightarrow> env \<Rightarrow> error + pyval) option" where
  "example_registry op data =
     (if op_class_of op = TableNode \<and> data = [] then None
      else Some (\<lambda>scope tc env. Inr (ScalarV (int (length data)))))"

definition example_hooks :: hooks where
  "example_hooks =
    \<lparr>execute_literal = (\<lambda>op env. Inr (ScalarV (int (node_id op)))),
     execute_node = dispatch_execute_node example_registry,
     pre_execute = (\<lambda>op scope tc env. Inr Map.empty),
     post_execute = (\<lambda>op result scope tc env. Inr result),
     compute_time_context = (\<lambda>op num_args tc. Inr (compute_time_context_default op (Some tc))),
     find_backends = (\<lambda>expr. [])\<rparr>"

definition example_env :: env where
  "example_env = \<lparr>env_aggcontext = Summarize, env_clients = []\<rparr>"

definition example_post_execute :: "node \<Rightarrow> pyval \<Rightarrow> timecontext option \<Rightarrow> error + pyval" where
  "example_post_execute op result tc = post_execute example_hooks op result Map.empty tc example_env"

text \<open>
  A second backend, whose \<open>pre_execute\<close> materialises the node it is called for and whose
  \<open>compute_time_context\<close> returns the empty list whatever the node; and a third, with
  the default \<open>pre_execute\<close> and that \<open>compute_time_context\<close>.
\<close>

definition materializing_hooks :: hooks where
  "materializing_hooks =
     example_hooks\<lparr>pre_execute := (\<lambda>op scope tc env. Inr (scope_item (OpKey op) (ScalarV 9) tc)),
                   compute_time_context := (\<lambda>op num_args tc. Inr [])\<rparr>"

definition short_list_hooks :: hooks where
  "short_list_hooks = example_hooks\<lparr>compute_time_context := (\<lambda>op num_args tc. Inr [])\<rparr>"

text \<open>
  Example expressions: a table; an operation over the table; an operation over that
  operation; an operation whose two inputs are the same sub-expression; an operation over
  a table that is bound nowhere; a selection over a table; a column of a table, whose
  first input (the column name, a string) is not computable.
\<close>

definition example_table :: node where
  "example_table = Node TableNode 3 []"

definition example_child :: node where
  "example_child = Node OtherNode 2 [Expr example_table]"

definition example_parent :: node where
  "example_parent = Node OtherNode 1 [Expr example_child]"

definition example_siblings :: node where
  "example_siblings = Node OtherNode 1 [Expr example_child, Expr example_child]"


definition example_selection :: node where
  "example_selection = Node TableNode 1 [Expr (Node TableNode 2 [])]"

definition example_column :: node where
  "example_column = Node TableColumn 1 [OpaqueArg 0, Expr (Node TableNode 2 [])]"

text \<open>
  A backend whose tables evaluate to a given frame, whose table columns evaluate to a
  column of two cells, and whose other nodes evaluate to a scalar. Three frames of two
  rows: one with the columns \<open>a\<close> and \<open>b\<close> and an index without a name, one whose index
  has the name of its column \<open>a\<close>, and one with two columns of the name \<open>a\<close>.
\<close>

definition table_hooks :: "frame \<Rightarrow> hooks" where
  "table_hooks df =
     example_hooks\<lparr>execute_node := (\<lambda>op data scope tc env.
        case op_class_of op of
          TableNode \<Rightarrow> Inr (DataFrame df)
        | TableColumn \<Rightarrow> Inr (Series \<lparr>sr_index = [5, 7], sr_values = [1, 2]\<rparr>)
        | _ \<Rightarrow> Inr (ScalarV 3))\<rparr>"

definition example_frame :: frame where
  "example_frame = \<lparr>df_index_name = None, df_index = [5, 7],
                     df_columns = [(''a'', [1, 2]), (''b'', [3, 4])]\<rparr>"

definition example_frame_named_index :: frame where
  "example_frame_named_index = \<lparr>df_index_name = Some ''a'', df_index = [5, 7],
                                 df_columns = [(''a'', [1, 2]), (''b'', [3, 4])]\<rparr>"

definition example_frame_duplicate :: frame where
  "example_frame_duplicate = \<lparr>df_index_name = None, df_index = [5, 7],
                               df_columns = [(''a'', [1, 2]), (''a'', [8, 9]), (''b'', [3, 4])]\<rparr>"

text \<open>
  A CSV client with one table \<open>t\<close>, stored in a file with the header \<open>a, b, c\<close> and two
  rows; a schema that types the column \<open>c\<close> as a timestamp, and one without timestamps.
\<close>

definition example_fs :: filesystem where
  "example_fs = [''t.csv'' \<mapsto> [(''a'', [1, 2]), (''b'', [3, 4]), (''c'', [5, 6])]]"

definition example_client :: csv_client where
  "example_client = \<lparr>dictionary = [''t'' \<mapsto> ''t.csv'']\<rparr>"

definition example_physical_tables :: "node \<Rightarrow> node list" where
  "example_physical_tables n = [n]"

definition example_table_name :: "node \<Rightarrow> string" where
  "example_table_name n = ''t''"

definition example_dated_schema :: "node \<Rightarrow> schema" where
  "example_dated_schema n = [(''a'', OtherDtype), (''b'', OtherDtype), (''c'', DatetimeNs)]"

definition example_plain_schema :: "node \<Rightarrow> schema" where
  "example_plain_schema n = [(''a'', OtherDtype), (''b'', OtherDtype), (''c'', OtherDtype)]"

section \<open>Auxiliary predicates\<close>

text \<open>
  A computation extends the log: its result does not depend on the log it starts from,
  and it only appends to it.
\<close>

definition extends_log :: "'a traced \<Rightarrow> bool" where
  "extends_log m = (\<forall>log. m log = (fst (m []), log @ snd (m [])))"

text \<open>A result is the unbound-data error; a computation never ends in it.\<close>

definition raises_unbound :: "error + 'a \<Rightarrow> bool" where
  "raises_unbound r = (\<exists>n. r = Inl (UnboundExpressionError n))"

definition never_unbound :: "'a traced \<Rightarrow> bool" where
  "never_unbound m = (\<forall>log. \<not> raises_unbound (fst (m log)))"

section \<open>Properties\<close>

text \<open>
  C3. For canonical time contexts \<open>cur\<close> and \<open>old\<close>, \<open>compare_timecontext cur old\<close> is
  \<open>SUBSET\<close> iff \<open>old.begin \<le> cur.begin\<close> and \<open>old.end \<ge> cur.end\<close>; \<open>SUPERSET\<close> iff that
  fails and \<open>old.begin \<ge> cur.begin\<close> and \<open>old.end \<le> cur.end\<close> (the checks apply in this
  order); \<open>NONOVERLAP\<close> iff \<open>old.end < cur.begin\<close> or \<open>cur.end < old.begin\<close>; \<open>OVERLAP\<close>
  otherwise. Exactly one outcome holds, and a context compared with itself is \<open>SUBSET\<close>.
\<close>

theorem compare_timecontext_classification:
  assumes "fst cur \<le> snd cur" and "fst old \<le> snd old"
  shows "(compare_timecontext cur old = SUBSET \<longleftrightarrow>
            fst old \<le> fst cur \<and> snd old \<ge> snd cur)
       \<and> (compare_timecontext cur old = SUPERSET \<longleftrightarrow>
            \<not> (fst old \<le> fst cur \<and> snd old \<ge> snd cur) \<and>
            fst old \<ge> fst cur \<and> snd old \<le> snd cur)
       \<and> (compare_timecontext cur old = NONOVERLAP \<longleftrightarrow>
            snd old < fst cur \<or> snd cur < fst old)
       \<and> (compare_timecontext cur old = OVERLAP \<longleftrightarrow>
            \<not> (fst old \<le> fst cur \<and> snd old \<ge> snd cur) \<and>
            \<not> (fst old \<ge> fst cur \<and> snd old \<le> snd cur) \<and>
            \<not> (snd old < fst cur \<or> snd cur < fst old))
       \<and> (\<exists>!r. compare_timecontext cur old = r)
       \<and> compare_timecontext cur cur = SUBSET"
  using assms by (cases cur; cases old) auto

theorem compare_timecontext_classification_witness:
  "compare_timecontext (2, 3) (1, 4) = SUBSET
   \<and> compare_timecontext (1, 4) (2, 3) = SUPERSET
   \<and> compare_timecontext (1, 2) (3, 4) = NONOVERLAP
   \<and> compare_timecontext (1, 3) (2, 4) = OVERLAP
   \<and> compare_timecontext (2, 3) (2, 3) = SUBSET"
  using compare_timecontext_classification [of "(2, 3)" "(1, 4)"]
    compare_timecontext_classification [of "(1, 4)" "(2, 3)"]
    compare_timecontext_classification [of "(1, 2)" "(3, 4)"]
    compare_timecontext_classification [of "(1, 3)" "(2, 4)"]
  by simp




text \<open>
  C1. For a node that is not a literal, if the lookup of the node under the requested
  time context succeeds at the start of the evaluation, then \<open>execute_until_in_scope\<close>
  returns the scope it was given, in which the node's entry holds the cached value, and
  the call log is unchanged: no registered implementation is called, neither for the node
  nor for any of its inputs.
\<close>

theorem memo_hit_skips_subtree:
  assumes "op_class_of op \<noteq> Literal"
    and "get_scope scope op tc = Inr v" and "v \<noteq> PyNone"
  shows "execute_until_in_scope h env post_execute' op scope tc log = (Inr scope, log)
       \<and> (\<exists>e. scope (OpKey op) = Some e \<and> entry_value e = v)"
proof
  show "execute_until_in_scope h env post_execute' op scope tc log = (Inr scope, log)"
    using assms by (simp add: execute_until_in_scope.simps and_then_def done_with_def)
  show "\<exists>e. scope (OpKey op) = Some e \<and> entry_value e = v"
    using assms(2,3) by (auto simp: get_scope_def split: option.splits if_splits)
qed

theorem memo_hit_skips_subtree_witness:
  "execute_until_in_scope example_hooks example_env example_post_execute
       (Node OtherNode 1 [Expr (Node TableNode 2 [])])
       (scope_item (OpKey (Node OtherNode 1 [Expr (Node TableNode 2 [])])) (ScalarV 5) None)
       None []
     = (Inr (scope_item (OpKey (Node OtherNode 1 [Expr (Node TableNode 2 [])])) (ScalarV 5) None), [])
   \<and> (\<exists>e. scope_item (OpKey (Node OtherNode 1 [Expr (Node TableNode 2 [])])) (ScalarV 5) None
             (OpKey (Node OtherNode 1 [Expr (Node TableNode 2 [])])) = Some e
          \<and> entry_value e = ScalarV 5)"
  using memo_hit_skips_subtree [of "Node OtherNode 1 [Expr (Node TableNode 2 [])]"
      "scope_item (OpKey (Node OtherNode 1 [Expr (Node TableNode 2 [])])) (ScalarV 5) None"
      None "ScalarV 5" example_hooks example_env example_post_execute "[]"]
  by (simp add: get_scope_def scope_item_def)

text \<open>
  What \<open>canonicalize_context\<close> accepts: exactly a two-element pair of bounds that both
  are instances of \<open>pd.Timestamp\<close>, of one kind, with \<open>begin \<le> end\<close>; it returns that
  pair, so \<open>begin \<le> end\<close> in the result. It fails on a reversed pair, on a value that does
  not unpack into exactly two bounds, and on a bound that is not a \<open>pd.Timestamp\<close>.
\<close>

lemma canonicalize_context_Inr_iff:
  "canonicalize_context x = Inr (b, e) \<longleftrightarrow>
     (\<exists>z. x = Unpackable [PdTimestamp z b, PdTimestamp z e]) \<and> b \<le> e"
proof (induction x rule: canonicalize_context.induct)
  case 1
  then show ?case by simp
next
  case (2 b' e')
  then show ?case by (cases b'; cases e') auto
qed simp_all

lemma canonicalize_context_not_pair:
  "length bs \<noteq> 2 \<Longrightarrow> canonicalize_context (Unpackable bs) = Inl (IbisError ShouldSpecifyBeginEnd)"
  by (induction "Unpackable bs" rule: canonicalize_context.induct) auto

lemma canonicalize_context_failures:
  "(b > e \<longrightarrow>
      canonicalize_context (Unpackable [PdTimestamp z b, PdTimestamp z e])
        = Inl (IbisError BeginAfterEnd))
   \<and> (z \<noteq> z' \<longrightarrow>
      canonicalize_context (Unpackable [PdTimestamp z b, PdTimestamp z' e]) = Inl TypeError)
   \<and> canonicalize_context NotIterable = Inl (IbisError ShouldSpecifyBeginEnd)
   \<and> (as_pd_timestamp b1 = None \<longrightarrow>
        canonicalize_context (Unpackable [b1, b2]) = Inl (IbisError BeginNotTimestamp))
   \<and> (as_pd_timestamp b2 = None \<longrightarrow>
        canonicalize_context (Unpackable [PdTimestamp z b, b2]) = Inl (IbisError EndNotTimestamp))"
  by simp

text \<open>
  C8 on the code. A pair of time strings in order, and a pair of \<open>datetime\<close> values in
  order, are pairs of bounds coercible to timestamps with \<open>begin \<le> end\<close>.
  \<open>canonicalize_context\<close> converts neither: it raises on the first bound.
\<close>

theorem canonicalize_context_converts_nothing:
  "spec_canonicalize_succeeds (Unpackable [TimeString 1, TimeString 2])
   \<and> canonicalize_context (Unpackable [TimeString 1, TimeString 2])
       = Inl (IbisError BeginNotTimestamp)
   \<and> spec_canonicalize_succeeds (Unpackable [Datetime 1, Datetime 2])
   \<and> canonicalize_context (Unpackable [Datetime 1, Datetime 2])
       = Inl (IbisError BeginNotTimestamp)
   \<and> canonicalize_context (Unpackable [PdTimestamp Naive 1, PdTimestamp Naive 2]) = Inr (1, 2)"
  by (simp add: spec_canonicalize_succeeds_def)

subsection \<open>The evaluator and its log\<close>

text \<open>The equations that evaluate the model on a concrete input.\<close>

lemmas eval_simps = execute_until_in_scope.simps and_then_def done_with_def logged_call_def
  get_scope_def scope_item_def map_add_def Let_def

lemma extends_log_done_with [simp, intro!]: "extends_log (done_with r)"
  by (simp add: extends_log_def done_with_def)

lemma extends_log_logged_call [simp, intro!]: "extends_log (logged_call ev r)"
  by (simp add: extends_log_def logged_call_def)

lemma extends_log_and_then [intro!]:
  assumes m: "extends_log m" and f: "\<And>x. extends_log (f x)"
  shows "extends_log (and_then m f)"
  unfolding extends_log_def
proof
  fix log
  from m have "\<forall>log. m log = (fst (m []), log @ snd (m []))"
    unfolding extends_log_def .
  then have m1: "m log = (fst (m []), log @ snd (m []))" by (rule spec)
  show "and_then m f log = (fst (and_then m f []), log @ snd (and_then m f []))"
  proof (cases "fst (m [])")
    case (Inl e)
    then show ?thesis using m1 by (cases "m []") (auto simp: and_then_def)
  next
    case (Inr x)
    from f [of x] have "\<forall>l. f x l = (fst (f x []), l @ snd (f x []))"
      unfolding extends_log_def .
    then have f1: "\<And>l. f x l = (fst (f x []), l @ snd (f x []))" by blast
    have "and_then m f log = f x (log @ snd (m []))"
      using Inr m1 by (simp add: and_then_def)
    moreover have "and_then m f [] = f x (snd (m []))"
      using Inr by (cases "m []") (auto simp: and_then_def)
    ultimately show ?thesis
      using f1 [of "log @ snd (m [])"] f1 [of "snd (m [])"] by simp
  qed
qed

lemma execute_extends_log:
  "extends_log (execute_until_in_scope h env pe op scope tc)"
  "extends_log (execute_args h env pe xs scope)"
proof (induction h env pe op scope tc and h env pe xs scope
    rule: execute_until_in_scope_execute_args.induct)
  case (1 h env pe op scope tc)
  have args: "extends_log (execute_args h env pe
      (zip (filter is_computable_input (inputs op)) atcs) (scope ++ p))"
    if "op_class_of op \<noteq> Literal"
      and "length atcs = length (filter is_computable_input (inputs op))" for atcs p
    by (rule "1.IH") (use that in simp_all)
  show ?case
    unfolding execute_until_in_scope.simps [of h env pe op scope tc] Let_def
    by (auto split: option.split intro!: args)
next
  case (2 h env pe new_scope)
  show ?case by simp
next
  case (3 h env pe a tc rest new_scope)
  show ?case
    by (auto split: option.split intro!: "3.IH")
qed

text \<open>The comprehension returns one scope per element it was given.\<close>

lemma execute_args_length:
  "execute_args h env pe xs s log = (Inr scopes, log') \<Longrightarrow> length scopes = length xs"
proof (induction xs arbitrary: scopes log log')
  case Nil
  then show ?case by (simp add: done_with_def)
next
  case (Cons x xs)
  obtain a tc where x: "x = (a, tc)" by (cases x)
  from Cons.prems show ?case
    unfolding x
    by (auto simp: and_then_def done_with_def split: prod.splits sum.splits dest: Cons.IH)
qed

lemma gather_data_plain:
  "gather_data new_scope computable_args =
     Inr (map (\<lambda>a. case arg_op a of
                      Some n \<Rightarrow> (case new_scope (OpKey n) of
                                   Some e \<Rightarrow> entry_value e
                                 | None \<Rightarrow> PyNone)
                    | None \<Rightarrow> value_of_arg a) computable_args)"
  by (induction computable_args) (auto simp: get_scope_def split: option.splits)

text \<open>
  C4, as the specification states it, fails. Under the time context \<open>(2, 3)\<close> the input
  \<open>example_child\<close> of \<open>example_parent\<close> is assigned \<open>(2, 3)\<close>; \<open>execute_node\<close> receives
  the value computed for it, \<open>ScalarV 1\<close>, whereas a lookup of that input in the merged scope
  under its assigned time context is a miss.
\<close>

theorem lookup_under_own_range_counterexample:
  "snd (execute_until_in_scope example_hooks example_env example_post_execute example_parent
      (scope_item (OpKey example_table) (ScalarV 7) (Some (1, 4))) (Some (2, 3)) [])
   = [ComputeTimeContext example_parent, PreExecute example_parent,
      ComputeTimeContext example_child, PreExecute example_child,
      ExecuteNode example_child [ScalarV 7] (Some (2, 3)), PostExecute example_child,
      ExecuteNode example_parent [ScalarV 1] (Some (2, 3)), PostExecute example_parent]
   \<and> spec_gather_data
        (foldl (++) (scope_item (OpKey example_table) (ScalarV 7) (Some (1, 4)) ++ Map.empty)
           [scope_item (OpKey example_child) (ScalarV 1) (Some (2, 3))])
        [(Expr example_child, Some (2, 3))] = Inr [PyNone]"
  by (simp add: eval_simps example_hooks_def example_env_def example_post_execute_def
      dispatch_execute_node_def example_registry_def
      example_parent_def example_child_def example_table_def compute_time_context_default_def)

text \<open>
  C4, amended. In the recursive step, once the scopes of the inputs are merged, the value
  passed to \<open>execute_node\<close> for a computable input that is an expression is the value
  stored for its node in the merged scope, found by a lookup with no time context (the
  time context stored with the entry and the one assigned to the input play no part), and
  \<open>None\<close> when the node has no entry; a computable input that is no expression is passed
  as it is. The step then continues with \<open>execute_node\<close> and \<open>post_execute\<close> on these
  values.
\<close>

theorem inputs_gathered_by_plain_lookup:
  assumes "op_class_of op \<noteq> Literal"
    and "get_scope scope op tc = Inr PyNone"
    and "computable_args = filter is_computable_input (inputs op)"
    and "(case tc of
            Some t \<Rightarrow> compute_time_context h op (length computable_args) t
          | None \<Rightarrow> Inr (replicate (length computable_args) None)) = Inr arg_timecontexts"
    and "pre_execute h op scope tc env = Inr pre_executed_scope"
    and "get_scope (scope ++ pre_executed_scope) op tc = Inr PyNone"
    and "length arg_timecontexts = length computable_args"
    and "execute_args h env pe (zip computable_args arg_timecontexts) (scope ++ pre_executed_scope)
           (log @ (case tc of Some t \<Rightarrow> [ComputeTimeContext op] | None \<Rightarrow> []) @ [PreExecute op])
         = (Inr scopes, log')"
    and "new_scope = foldl (++) (scope ++ pre_executed_scope) scopes"
    and "data = map (\<lambda>a. case arg_op a of
                            Some n \<Rightarrow> (case new_scope (OpKey n) of
                                         Some e \<Rightarrow> entry_value e
                                       | None \<Rightarrow> PyNone)
                          | None \<Rightarrow> value_of_arg a) computable_args"
  shows "execute_until_in_scope h env pe op scope tc log =
           (case execute_node h op data scope tc env of
              Inl e \<Rightarrow> (Inl e, log' @ [ExecuteNode op data tc])
            | Inr result \<Rightarrow>
               (case pe op result tc of
                  Inl e \<Rightarrow> (Inl e, log' @ [ExecuteNode op data tc, PostExecute op])
                | Inr computed \<Rightarrow>
                    (Inr (scope_item (OpKey op) computed tc),
                     log' @ [ExecuteNode op data tc, PostExecute op])))"
proof -
  note a = assms(1,2,4-8) [unfolded assms(3)]
  have len: "length scopes = length (filter is_computable_input (inputs op))"
    using execute_args_length [OF a(7)] a(6) by simp
  then have dead: "\<not> (scopes = [] \<and> filter is_computable_input (inputs op) \<noteq> [])"
    by auto
  show ?thesis
    unfolding execute_until_in_scope.simps [of h env pe op scope tc] assms(10) assms(9) assms(3)
    using a len dead
    by (cases tc)
      (simp_all add: and_then_def done_with_def logged_call_def Let_def gather_data_plain
        split: sum.splits)
qed

theorem inputs_gathered_by_plain_lookup_witness:
  "execute_until_in_scope example_hooks example_env example_post_execute example_parent
      (scope_item (OpKey example_table) (ScalarV 7) (Some (1, 4))) (Some (2, 3)) []
   = (Inr (scope_item (OpKey example_parent) (ScalarV 1) (Some (2, 3))),
      [ComputeTimeContext example_parent, PreExecute example_parent,
       ComputeTimeContext example_child, PreExecute example_child,
       ExecuteNode example_child [ScalarV 7] (Some (2, 3)), PostExecute example_child,
       ExecuteNode example_parent [ScalarV 1] (Some (2, 3)), PostExecute example_parent])"
  using inputs_gathered_by_plain_lookup [of example_parent
      "scope_item (OpKey example_table) (ScalarV 7) (Some (1, 4))" "Some (2, 3)"
      "[Expr example_child]" example_hooks "[Some (2, 3)]" example_env Map.empty
      example_post_execute "[]" "[scope_item (OpKey example_child) (ScalarV 1) (Some (2, 3))]"
      "[ComputeTimeContext example_parent, PreExecute example_parent,
        ComputeTimeContext example_child, PreExecute example_child,
        ExecuteNode example_child [ScalarV 7] (Some (2, 3)), PostExecute example_child]"
      "foldl (++) (scope_item (OpKey example_table) (ScalarV 7) (Some (1, 4)) ++ Map.empty)
         [scope_item (OpKey example_child) (ScalarV 1) (Some (2, 3))]"
      "[ScalarV 1]"]
  by (simp add: eval_simps example_hooks_def example_env_def example_post_execute_def
      dispatch_execute_node_def example_registry_def
      example_parent_def example_child_def example_table_def compute_time_context_default_def)

text \<open>
  C5, as the specification states it, fails. The two inputs of \<open>example_siblings\<close> are the
  same sub-expression, and \<open>execute_node\<close> runs for it twice: the entry the first sibling
  creates is not in the scope the second sibling is evaluated from.
\<close>

theorem shared_sibling_evaluated_twice_counterexample:
  "snd (execute_until_in_scope example_hooks example_env example_post_execute example_siblings
      (scope_item (OpKey example_table) (ScalarV 7) None) None [])
   = [PreExecute example_siblings,
      PreExecute example_child, ExecuteNode example_child [ScalarV 7] None,
      PostExecute example_child,
      PreExecute example_child, ExecuteNode example_child [ScalarV 7] None,
      PostExecute example_child,
      ExecuteNode example_siblings [ScalarV 1, ScalarV 1] None, PostExecute example_siblings]
   \<and> length (filter (\<lambda>ev. ev = ExecuteNode example_child [ScalarV 7] None)
        (snd (execute_until_in_scope example_hooks example_env example_post_execute
           example_siblings (scope_item (OpKey example_table) (ScalarV 7) None) None []))) = 2"
  by (simp add: eval_simps example_hooks_def example_env_def example_post_execute_def
      dispatch_execute_node_def example_registry_def
      example_siblings_def example_child_def example_table_def)

text \<open>
  C5, amended. Within one evaluation the sibling inputs of a node are evaluated one after
  the other in the order of the inputs: the calls made for the first input are logged
  before every call made for the inputs after it, and an error of the first ends the
  evaluation of the siblings. Every sibling is evaluated from the same scope, the node's
  scope merged with the contribution of \<open>pre_execute\<close>; the result of an earlier sibling
  has no effect on the evaluation of a later one. (The scopes of the siblings are merged
  only after all of them are evaluated.)
\<close>

theorem siblings_in_order_from_same_scope:
  "execute_args h env pe ((a, tc) # rest) new_scope log =
     (case (case arg_op a of
              Some n \<Rightarrow> execute_until_in_scope h env pe n new_scope tc []
            | None \<Rightarrow> (Inr (scope_item (RawKey a) (value_of_arg a) tc), [])) of
        (Inl e, events) \<Rightarrow> (Inl e, log @ events)
      | (Inr s, events) \<Rightarrow>
          (case execute_args h env pe rest new_scope [] of
             (Inl e, events') \<Rightarrow> (Inl e, log @ events @ events')
           | (Inr ss, events') \<Rightarrow> (Inr (s # ss), log @ events @ events')))"
proof -
  have rest: "execute_args h env pe rest new_scope l =
      (fst (execute_args h env pe rest new_scope []),
       l @ snd (execute_args h env pe rest new_scope []))" for l
    using execute_extends_log(2) [of h env pe rest new_scope]
    unfolding extends_log_def by blast
  show ?thesis
  proof (cases "arg_op a")
    case None
    then show ?thesis
      using rest [of log]
      by (auto simp: and_then_def done_with_def split: prod.splits sum.splits)
  next
    case (Some n)
    have first: "execute_until_in_scope h env pe n new_scope tc log =
      (fst (execute_until_in_scope h env pe n new_scope tc []),
       log @ snd (execute_until_in_scope h env pe n new_scope tc []))"
      using execute_extends_log(1) [of h env pe n new_scope tc]
      unfolding extends_log_def by blast
    show ?thesis
    proof (cases "execute_until_in_scope h env pe n new_scope tc []")
      case (Pair r events)
      show ?thesis
      proof (cases r)
        case (Inl e)
        then show ?thesis using Some Pair first by (simp add: and_then_def)
      next
        case (Inr s)
        then show ?thesis
          using Some Pair first rest [of "log @ events"]
          by (auto simp: and_then_def done_with_def split: prod.splits sum.splits)
      qed
    qed
  qed
qed

theorem siblings_in_order_from_same_scope_witness:
  "execute_args example_hooks example_env example_post_execute
      [(Expr example_child, None), (Expr example_child, None)]
      (scope_item (OpKey example_table) (ScalarV 7) None) []
   = (Inr [scope_item (OpKey example_child) (ScalarV 1) None,
           scope_item (OpKey example_child) (ScalarV 1) None],
      [PreExecute example_child, ExecuteNode example_child [ScalarV 7] None,
       PostExecute example_child,
       PreExecute example_child, ExecuteNode example_child [ScalarV 7] None,
       PostExecute example_child])"
  using siblings_in_order_from_same_scope [of example_hooks example_env example_post_execute
      "Expr example_child" None "[(Expr example_child, None)]"
      "scope_item (OpKey example_table) (ScalarV 7) None" "[]"]
  by (simp add: eval_simps example_hooks_def example_env_def example_post_execute_def
      dispatch_execute_node_def example_registry_def
      example_child_def example_table_def)

subsection \<open>The unbound-data error\<close>

lemma raises_unbound_simps [simp]:
  "\<not> raises_unbound (Inr x)"
  "\<not> raises_unbound (Inl (IbisError msg))"
  "\<not> raises_unbound (Inl AssertionError)"
  "\<not> raises_unbound (Inl TypeError)"
  by (simp_all add: raises_unbound_def)

lemma get_scope_not_unbound [simp]: "\<not> raises_unbound (get_scope scope op tc)"
  by (simp add: get_scope_def split: option.splits)

lemma never_unbound_done_with [simp]: "never_unbound (done_with r) = (\<not> raises_unbound r)"
  by (simp add: never_unbound_def done_with_def)

lemma never_unbound_logged_call [simp]: "never_unbound (logged_call ev r) = (\<not> raises_unbound r)"
  by (simp add: never_unbound_def logged_call_def)

lemma never_unbound_and_then:
  assumes "never_unbound m"
    and "\<And>x log log'. m log = (Inr x, log') \<Longrightarrow> never_unbound (f x)"
  shows "never_unbound (and_then m f)"
  unfolding never_unbound_def
proof
  fix log
  show "\<not> raises_unbound (fst (and_then m f log))"
  proof (cases "m log")
    case (Pair r log')
    show ?thesis
    proof (cases r)
      case (Inl e)
      have "\<not> raises_unbound (fst (m log))"
        using assms(1) unfolding never_unbound_def by blast
      with Pair Inl show ?thesis by (simp add: and_then_def raises_unbound_def)
    next
      case (Inr x)
      with Pair have "never_unbound (f x)" by (intro assms(2)) simp
      with Pair Inr show ?thesis by (simp add: and_then_def never_unbound_def)
    qed
  qed
qed

text \<open>
  The \<open>raise\<close> of lines 371-374 is never reached: unless a registered implementation
  raises the unbound-data error itself, no evaluation ends in it, whatever the expression
  and the scope. The unbound-data error of an evaluation is the one the dispatch of
  \<open>execute_node\<close> raises.
\<close>

lemma execute_never_unbound:
  assumes lit: "\<And>op env. \<not> raises_unbound (execute_literal h op env)"
    and ctc: "\<And>op n t. \<not> raises_unbound (compute_time_context h op n t)"
    and pre: "\<And>op scope tc env. \<not> raises_unbound (pre_execute h op scope tc env)"
    and node: "\<And>op data scope tc env. \<not> raises_unbound (execute_node h op data scope tc env)"
    and post: "\<And>op result tc. \<not> raises_unbound (pe op result tc)"
  shows "never_unbound (execute_until_in_scope h env pe op scope tc)"
    and "never_unbound (execute_args h env pe xs scope)"
  using assms
proof (induction h env pe op scope tc and h env pe xs scope
    rule: execute_until_in_scope_execute_args.induct)
  case (1 h env pe op scope tc)
  let ?cargs = "filter is_computable_input (inputs op)"
  have args: "never_unbound (execute_args h env pe (zip ?cargs atcs) (scope ++ p))"
    if "op_class_of op \<noteq> Literal" and "length atcs = length ?cargs" for atcs p
    by (rule "1.IH") (use that "1.prems" in simp_all)
  have dead: "?cargs = []"
    if "execute_args h env pe (zip ?cargs atcs) s log = (Inr [], log')"
      and "length atcs = length ?cargs" for atcs s log log'
    using execute_args_length [OF that(1)] that(2) by auto
  show ?case
    unfolding execute_until_in_scope.simps [of h env pe op scope tc] Let_def
    by (auto intro!: never_unbound_and_then args simp: "1.prems" gather_data_plain
        split: option.split dest!: dead)
next
  case (2 h env pe new_scope)
  show ?case by simp
next
  case (3 h env pe a tc rest new_scope)
  show ?case
    by (auto intro!: never_unbound_and_then "3.IH" "3.prems" split: option.split)
qed



subsection \<open>The time contexts of the inputs\<close>

text \<open>
  C7, as the specification states it, fails twice. The default of the pyspark backend
  returns one time context per input, computable or not: two for \<open>example_column\<close>, which
  has one computable input. And a list of the wrong length does not fail the evaluation
  when \<open>pre_execute\<close> puts the node in scope: the evaluation returns before the lengths
  are compared.
\<close>

theorem compute_time_context_arity_counterexample:
  "length (pyspark_compute_time_context_default example_column (Some (2, 3))) = 2
   \<and> length (filter is_computable_input (inputs example_column)) = 1
   \<and> compute_time_context materializing_hooks example_selection
        (length (filter is_computable_input (inputs example_selection))) (2, 3) = Inr []
   \<and> length (filter is_computable_input (inputs example_selection)) = 1
   \<and> execute_until_in_scope materializing_hooks example_env example_post_execute
        example_selection Map.empty (Some (2, 3)) []
      = (Inr (Map.empty ++ scope_item (OpKey example_selection) (ScalarV 9) (Some (2, 3))),
         [ComputeTimeContext example_selection, PreExecute example_selection])"
  by (simp add: eval_simps materializing_hooks_def example_hooks_def example_env_def example_post_execute_def
      dispatch_execute_node_def example_registry_def
      example_selection_def example_column_def pyspark_compute_time_context_default_def)

text \<open>
  C7, amended. The default \<open>compute_time_context\<close> of the pandas backend returns the
  parent's time context unchanged, once for each computable input and for no other input;
  the default of the pyspark backend returns it once for every input. When a time context
  is set, the node is no literal and is not found in scope, neither at the start nor after
  \<open>pre_execute\<close> has succeeded and its contribution is merged, and the list that
  \<open>compute_time_context\<close> returned differs in length from the computable inputs, then the
  evaluation fails with the arity-mismatch error, after the calls of
  \<open>compute_time_context\<close> and \<open>pre_execute\<close> and before any input is evaluated.
\<close>

theorem compute_time_context_arity:
  "compute_time_context_default node tc =
     replicate (length (filter is_computable_input (inputs node))) tc
   \<and> pyspark_compute_time_context_default node tc = replicate (length (inputs node)) tc
   \<and> (op_class_of op \<noteq> Literal \<and>
       get_scope scope op (Some t) = Inr PyNone \<and>
       compute_time_context h op (length (filter is_computable_input (inputs op))) t
         = Inr arg_timecontexts \<and>
       length arg_timecontexts \<noteq> length (filter is_computable_input (inputs op)) \<and>
       pre_execute h op scope (Some t) env = Inr pre_executed_scope \<and>
       get_scope (scope ++ pre_executed_scope) op (Some t) = Inr PyNone
       \<longrightarrow> execute_until_in_scope h env pe op scope (Some t) log
            = (Inl (IbisError ArgTimecontextsDiffer),
               log @ [ComputeTimeContext op, PreExecute op]))"
proof (intro conjI impI)
  show "compute_time_context_default node tc =
     replicate (length (filter is_computable_input (inputs node))) tc"
    by (simp add: compute_time_context_default_def map_replicate_const)
  show "pyspark_compute_time_context_default node tc = replicate (length (inputs node)) tc"
    by (simp add: pyspark_compute_time_context_default_def map_replicate_const)
next
  assume "op_class_of op \<noteq> Literal \<and>
       get_scope scope op (Some t) = Inr PyNone \<and>
       compute_time_context h op (length (filter is_computable_input (inputs op))) t
         = Inr arg_timecontexts \<and>
       length arg_timecontexts \<noteq> length (filter is_computable_input (inputs op)) \<and>
       pre_execute h op scope (Some t) env = Inr pre_executed_scope \<and>
       get_scope (scope ++ pre_executed_scope) op (Some t) = Inr PyNone"
  then show "execute_until_in_scope h env pe op scope (Some t) log
            = (Inl (IbisError ArgTimecontextsDiffer),
               log @ [ComputeTimeContext op, PreExecute op])"
    unfolding execute_until_in_scope.simps [of h env pe op scope "Some t"]
    by (simp add: and_then_def done_with_def logged_call_def Let_def)
qed

theorem compute_time_context_arity_witness:
  "compute_time_context_default example_column (Some (2, 3)) = [Some (2, 3)]
   \<and> pyspark_compute_time_context_default example_column (Some (2, 3)) = [Some (2, 3), Some (2, 3)]
   \<and> execute_until_in_scope short_list_hooks example_env example_post_execute
        example_selection Map.empty (Some (2, 3)) []
      = (Inl (IbisError ArgTimecontextsDiffer),
         [ComputeTimeContext example_selection, PreExecute example_selection])"
  using compute_time_context_arity [of example_column "Some (2, 3)" example_selection Map.empty
      "(2, 3)" short_list_hooks "[]" example_env Map.empty example_post_execute "[]"]
  by (simp add: short_list_hooks_def example_hooks_def example_selection_def
      example_column_def get_scope_def)

text \<open>
  The short circuit in general: when \<open>pre_execute\<close> puts the node in scope, the
  evaluation returns the merged scope, and the lengths are not compared.
\<close>

lemma pre_execute_short_circuit:
  assumes "op_class_of op \<noteq> Literal"
    and "get_scope scope op tc = Inr PyNone"
    and "(case tc of
            Some t \<Rightarrow> compute_time_context h op
                        (length (filter is_computable_input (inputs op))) t
          | None \<Rightarrow> Inr (replicate (length (filter is_computable_input (inputs op))) None))
         = Inr arg_timecontexts"
    and "pre_execute h op scope tc env = Inr pre_executed_scope"
    and "get_scope (scope ++ pre_executed_scope) op tc = Inr v" and "v \<noteq> PyNone"
  shows "execute_until_in_scope h env pe op scope tc log =
           (Inr (scope ++ pre_executed_scope),
            log @ (case tc of Some t \<Rightarrow> [ComputeTimeContext op] | None \<Rightarrow> []) @ [PreExecute op])"
  unfolding execute_until_in_scope.simps [of h env pe op scope tc]
  using assms
  by (cases tc) (simp_all add: and_then_def done_with_def logged_call_def Let_def)

subsection \<open>Resetting the index of the result\<close>

lemma filter_by_name:
  "distinct (map fst cols) \<Longrightarrow> n \<in> set (map fst cols) \<Longrightarrow>
   filter (\<lambda>c. fst c = n) cols = [(n, the (map_of cols n))]"
proof (induction cols)
  case Nil
  then show ?case by simp
next
  case (Cons c cols)
  obtain k v where c: "c = (k, v)" by (cases c)
  show ?case
  proof (cases "k = n")
    case True
    with Cons.prems c have "n \<notin> set (map fst cols)" by simp
    then have "filter (\<lambda>c. fst c = n) cols = []"
      by (auto simp: filter_empty_conv)
    with True c show ?thesis by simp
  next
    case False
    with Cons c show ?thesis by auto
  qed
qed

lemma loc_columns_distinct:
  assumes "distinct (map fst (df_columns df))" and "set names \<subseteq> set (map fst (df_columns df))"
  shows "loc_columns df names =
     Inr (df\<lparr>df_columns := map (\<lambda>n. (n, the (map_of (df_columns df) n))) names\<rparr>)"
proof -
  have "concat (map (\<lambda>n. filter (\<lambda>c. fst c = n) (df_columns df)) names) =
      map (\<lambda>n. (n, the (map_of (df_columns df) n))) names"
    using assms(2)
  proof (induction names)
    case Nil
    then show ?case by simp
  next
    case (Cons n names)
    then show ?case using filter_by_name [OF assms(1), of n] by simp
  qed
  then show ?thesis using assms(2) by (simp add: loc_columns_def)
qed

text \<open>
  C9, as the specification states it, fails. In each of three cases \<open>execute\<close> succeeds
  with a table. The expression declares the column \<open>c\<close>, which the table lacks:
  \<open>execute_and_reset\<close> raises the \<open>KeyError\<close> of the projection. The index of the table
  has the name of a column: \<open>execute_and_reset\<close> raises the \<open>ValueError\<close> of
  \<open>reset_index\<close>. The table has two columns of the name \<open>a\<close>: the result has three
  columns for the two the expression declares.
\<close>

theorem execute_and_reset_counterexample:
  "fst (main_execute (table_hooks example_frame) example_table None None None None [])
     = Inr (DataFrame example_frame)
   \<and> fst (execute_and_reset (table_hooks example_frame) (\<lambda>expr. [''c'']) example_table
        None None None None []) = Inl KeyError
   \<and> fst (main_execute (table_hooks example_frame_named_index) example_table
        None None None None []) = Inr (DataFrame example_frame_named_index)
   \<and> fst (execute_and_reset (table_hooks example_frame_named_index) (\<lambda>expr. [''a'', ''b''])
        example_table None None None None []) = Inl ValueError
   \<and> fst (main_execute (table_hooks example_frame_duplicate) example_table
        None None None None []) = Inr (DataFrame example_frame_duplicate)
   \<and> fst (execute_and_reset (table_hooks example_frame_duplicate) (\<lambda>expr. [''a'', ''b''])
        example_table None None None None [])
     = Inr (DataFrame \<lparr>df_index_name = None, df_index = [0, 1],
                       df_columns = [(''a'', [1, 2]), (''a'', [8, 9]), (''b'', [3, 4])]\<rparr>)"
  by (simp add: main_execute_def execute_with_scope_def execute_and_reset_def eval_simps
      example_hooks_def example_env_def example_post_execute_def table_hooks_def
      example_frame_def example_frame_named_index_def example_frame_duplicate_def
      reset_index_def loc_columns_def index_column_name_def example_table_def)

text \<open>
  C9, amended. Let \<open>execute\<close> succeed. If its result is a table, \<open>execute_and_reset\<close>
  fails with \<open>ValueError\<close> when a column of the table has the name the index is inserted
  under; otherwise it fails with \<open>KeyError\<close> when a column the expression's schema
  declares is neither a column of the table nor the inserted index; otherwise it returns
  the table with the index \<open>0, ..., n - 1\<close> and, for each declared name in the declared
  order, the columns of that name: exactly the declared columns, each with the cells it
  has in the executed table (the former index for a declared column of its name), when the
  column names of the table are distinct. If the result is a column, \<open>execute_and_reset\<close>
  returns its cells with the index \<open>0, ..., n - 1\<close>. Any other result is returned as
  \<open>execute\<close> returned it. The calls logged are those of \<open>execute\<close>.
\<close>

theorem execute_and_reset_result:
  assumes "main_execute h expr params scope timecontext aggcontext log = (Inr result, log')"
  shows "(\<forall>r. result = DataFrame r \<and>
            index_column_name r \<in> set (map fst (df_columns r))
          \<longrightarrow> execute_and_reset h schema_names expr params scope timecontext aggcontext log =
                (Inl ValueError, log'))
       \<and> (\<forall>r. result = DataFrame r \<and>
            index_column_name r \<notin> set (map fst (df_columns r)) \<and>
            \<not> set (schema_names expr) \<subseteq>
                insert (index_column_name r) (set (map fst (df_columns r)))
          \<longrightarrow> execute_and_reset h schema_names expr params scope timecontext aggcontext log =
                (Inl KeyError, log'))
       \<and> (\<forall>r. result = DataFrame r \<and>
            index_column_name r \<notin> set (map fst (df_columns r)) \<and>
            set (schema_names expr) \<subseteq>
                insert (index_column_name r) (set (map fst (df_columns r)))
          \<longrightarrow> execute_and_reset h schema_names expr params scope timecontext aggcontext log =
                (Inr (DataFrame
                   \<lparr>df_index_name = None,
                    df_index = map int [0..<length (df_index r)],
                    df_columns =
                      concat (map (\<lambda>n. filter (\<lambda>c. fst c = n)
                                          ((index_column_name r, df_index r) # df_columns r))
                                (schema_names expr))\<rparr>),
                 log'))
       \<and> (\<forall>r. result = DataFrame r \<and>
            index_column_name r \<notin> set (map fst (df_columns r)) \<and>
            set (schema_names expr) \<subseteq>
                insert (index_column_name r) (set (map fst (df_columns r))) \<and>
            distinct (map fst (df_columns r))
          \<longrightarrow> execute_and_reset h schema_names expr params scope timecontext aggcontext log =
                (Inr (DataFrame
                   \<lparr>df_index_name = None,
                    df_index = map int [0..<length (df_index r)],
                    df_columns =
                      map (\<lambda>n. (n, the (map_of ((index_column_name r, df_index r) # df_columns r) n)))
                        (schema_names expr)\<rparr>),
                 log'))
       \<and> (\<forall>s. result = Series s
          \<longrightarrow> execute_and_reset h schema_names expr params scope timecontext aggcontext log =
                (Inr (Series \<lparr>sr_index = map int [0..<length (sr_index s)],
                              sr_values = sr_values s\<rparr>), log'))
       \<and> ((\<forall>r. result \<noteq> DataFrame r) \<and> (\<forall>s. result \<noteq> Series s)
          \<longrightarrow> execute_and_reset h schema_names expr params scope timecontext aggcontext log =
                (Inr result, log'))"
proof (intro conjI allI impI)
  fix r
  assume "result = DataFrame r \<and> index_column_name r \<in> set (map fst (df_columns r))"
  with assms
  show "execute_and_reset h schema_names expr params scope timecontext aggcontext log =
                (Inl ValueError, log')"
    by (simp add: execute_and_reset_def and_then_def done_with_def reset_index_def Let_def)
next
  fix r
  assume "result = DataFrame r \<and>
            index_column_name r \<notin> set (map fst (df_columns r)) \<and>
            \<not> set (schema_names expr) \<subseteq>
                insert (index_column_name r) (set (map fst (df_columns r)))"
  with assms
  show "execute_and_reset h schema_names expr params scope timecontext aggcontext log =
                (Inl KeyError, log')"
    by (simp add: execute_and_reset_def and_then_def done_with_def reset_index_def Let_def
        loc_columns_def)
next
  fix r
  assume "result = DataFrame r \<and>
            index_column_name r \<notin> set (map fst (df_columns r)) \<and>
            set (schema_names expr) \<subseteq>
                insert (index_column_name r) (set (map fst (df_columns r)))"
  with assms
  show "execute_and_reset h schema_names expr params scope timecontext aggcontext log =
                (Inr (DataFrame
                   \<lparr>df_index_name = None,
                    df_index = map int [0..<length (df_index r)],
                    df_columns =
                      concat (map (\<lambda>n. filter (\<lambda>c. fst c = n)
                                          ((index_column_name r, df_index r) # df_columns r))
                                (schema_names expr))\<rparr>),
                 log')"
    by (simp add: execute_and_reset_def and_then_def done_with_def reset_index_def Let_def
        loc_columns_def)
next
  fix r
  assume a: "result = DataFrame r \<and>
            index_column_name r \<notin> set (map fst (df_columns r)) \<and>
            set (schema_names expr) \<subseteq>
                insert (index_column_name r) (set (map fst (df_columns r))) \<and>
            distinct (map fst (df_columns r))"
  let ?df = "\<lparr>df_index_name = None, df_index = map int [0..<length (df_index r)],
              df_columns = (index_column_name r, df_index r) # df_columns r\<rparr>"
  have reset: "reset_index r = Inr ?df"
    using a by (simp add: reset_index_def Let_def)
  have "loc_columns ?df (schema_names expr) =
     Inr (?df\<lparr>df_columns := map (\<lambda>n. (n, the (map_of (df_columns ?df) n))) (schema_names expr)\<rparr>)"
    by (rule loc_columns_distinct) (use a in auto)
  with reset a assms
  show "execute_and_reset h schema_names expr params scope timecontext aggcontext log =
                (Inr (DataFrame
                   \<lparr>df_index_name = None,
                    df_index = map int [0..<length (df_index r)],
                    df_columns =
                      map (\<lambda>n. (n, the (map_of ((index_column_name r, df_index r) # df_columns r) n)))
                        (schema_names expr)\<rparr>),
                 log')"
    by (simp add: execute_and_reset_def and_then_def done_with_def)
next
  fix s
  assume "result = Series s"
  with assms
  show "execute_and_reset h schema_names expr params scope timecontext aggcontext log =
                (Inr (Series \<lparr>sr_index = map int [0..<length (sr_index s)],
                              sr_values = sr_values s\<rparr>), log')"
    by (simp add: execute_and_reset_def and_then_def done_with_def series_reset_index_drop_def)
next
  assume "(\<forall>r. result \<noteq> DataFrame r) \<and> (\<forall>s. result \<noteq> Series s)"
  with assms
  show "execute_and_reset h schema_names expr params scope timecontext aggcontext log =
                (Inr result, log')"
    by (cases result) (simp_all add: execute_and_reset_def and_then_def done_with_def)
qed

theorem execute_and_reset_result_witness:
  "execute_and_reset (table_hooks example_frame) (\<lambda>expr. [''b'', ''a'']) example_table
       None None None None []
     = (Inr (DataFrame \<lparr>df_index_name = None, df_index = [0, 1],
                        df_columns = [(''b'', [3, 4]), (''a'', [1, 2])]\<rparr>),
        [PreExecute example_table, PreExecute example_table, ExecuteNode example_table [] None,
         PostExecute example_table])
   \<and> execute_and_reset (table_hooks example_frame) (\<lambda>expr. [''c'']) example_table
       None None None None []
     = (Inl KeyError,
        [PreExecute example_table, PreExecute example_table, ExecuteNode example_table [] None,
         PostExecute example_table])
   \<and> execute_and_reset (table_hooks example_frame_named_index) (\<lambda>expr. [''a'', ''b''])
       example_table None None None None []
     = (Inl ValueError,
        [PreExecute example_table, PreExecute example_table, ExecuteNode example_table [] None,
         PostExecute example_table])
   \<and> fst (execute_and_reset (table_hooks example_frame) (\<lambda>expr. []) example_column
       None None None None [])
     = Inr (Series \<lparr>sr_index = [0, 1], sr_values = [1, 2]\<rparr>)
   \<and> fst (execute_and_reset (table_hooks example_frame) (\<lambda>expr. []) example_parent
       None None None None [])
     = Inr (ScalarV 3)"
  using
    execute_and_reset_result [of "table_hooks example_frame" example_table None None None None
      "[]" "DataFrame example_frame"
      "[PreExecute example_table, PreExecute example_table, ExecuteNode example_table [] None,
        PostExecute example_table]" "\<lambda>expr. [''b'', ''a'']"]
    execute_and_reset_result [of "table_hooks example_frame" example_table None None None None
      "[]" "DataFrame example_frame"
      "[PreExecute example_table, PreExecute example_table, ExecuteNode example_table [] None,
        PostExecute example_table]" "\<lambda>expr. [''c'']"]
    execute_and_reset_result [of "table_hooks example_frame_named_index" example_table
      None None None None "[]" "DataFrame example_frame_named_index"
      "[PreExecute example_table, PreExecute example_table, ExecuteNode example_table [] None,
        PostExecute example_table]" "\<lambda>expr. [''a'', ''b'']"]
  by (simp add: main_execute_def execute_with_scope_def execute_and_reset_def eval_simps
      example_hooks_def example_env_def example_post_execute_def table_hooks_def
      example_frame_def example_frame_named_index_def
      reset_index_def loc_columns_def index_column_name_def series_reset_index_drop_def
      example_table_def example_child_def example_parent_def example_column_def)

subsection \<open>Column pruning by the CSV client\<close>

lemma index_and_length:
  "length (index_and usecols header_columns) \<noteq> length usecols \<longleftrightarrow>
     \<not> set usecols \<subseteq> set header_columns"
proof -
  have "length (filter P xs) = length xs \<longleftrightarrow> (\<forall>x\<in>set xs. P x)" for P and xs :: "string list"
    by (metis filter_True length_filter_less nat_neq_iff)
  then show ?thesis by (auto simp: index_and_def)
qed

lemma read_csv_all:
  assumes "fs path = Some file_columns"
    and "set (map fst (filter (\<lambda>s. snd s = DatetimeNs) schema)) \<subseteq> set (map fst file_columns)"
  shows "\<exists>df. read_csv fs path schema None nrows = Inr df \<and>
     map fst (df_columns df) = map fst file_columns"
  using assms by (simp add: read_csv_def Let_def comp_def)

lemma read_csv_usecols:
  assumes "fs path = Some file_columns"
    and "set usecols \<subseteq> set (map fst file_columns)"
  shows "if set (map fst (filter (\<lambda>s. snd s = DatetimeNs) schema)) \<subseteq> set usecols
         then \<exists>df. read_csv fs path schema (Some usecols) None = Inr df \<and>
                set (map fst (df_columns df)) = set usecols
         else read_csv fs path schema (Some usecols) None = Inl ValueError"
proof -
  have names: "set (map fst (filter (\<lambda>c. fst c \<in> set usecols) file_columns)) = set usecols"
    using assms(2) by auto
  show ?thesis
    using assms(1,2) names
    by (simp add: read_csv_def Let_def comp_def del: set_map set_filter)
qed

text \<open>
  What \<open>csv_pre_execute_selection\<close> reads for one table whose file is present and carries
  the timestamp columns of the schema. Without selections, or when a requested name is
  not in the header, it reads every column. When all requested names are in the header,
  it reads exactly the requested columns if every timestamp column of the schema is among
  them, and raises otherwise.
\<close>

lemma csv_read_selected_cases:
  assumes "dictionary client (table_name table) = Some path"
    and "fs path = Some file_columns"
    and "dates = map fst (filter (\<lambda>s. snd s = DatetimeNs) (table_schema table))"
    and "set dates \<subseteq> set (map fst file_columns)"
  shows "if sel_selections op \<noteq> [] \<and> set (sel_selections op) \<subseteq> set (map fst file_columns)
         then (if set dates \<subseteq> set (sel_selections op)
               then \<exists>df. csv_read_selected fs table_name table_schema client op table = Inr df \<and>
                      set (map fst (df_columns df)) = set (sel_selections op)
               else csv_read_selected fs table_name table_schema client op table = Inl ValueError)
         else \<exists>df. csv_read_selected fs table_name table_schema client op table = Inr df \<and>
                map fst (df_columns df) = map fst file_columns"
proof -
  from read_csv_all [of fs path file_columns "table_schema table" "Some 1"] assms(2,3,4)
  obtain header where
    h: "read_csv fs path (table_schema table) None (Some 1) = Inr header"
       "map fst (df_columns header) = map fst file_columns" by auto
  show ?thesis
  proof (cases "sel_selections op \<noteq> [] \<and> set (sel_selections op) \<subseteq> set (map fst file_columns)")
    case True
    have sel: "csv_read_selected fs table_name table_schema client op table =
        read_csv fs path (table_schema table) (Some (sel_selections op)) None"
      using True assms(1) h index_and_length [of "sel_selections op" "map fst file_columns"]
      by (simp add: csv_read_selected_def Let_def)
    from read_csv_usecols [of fs path file_columns "sel_selections op" "table_schema table"]
      assms(2,3) True sel
    show ?thesis by (simp del: set_map set_filter)
  next
    case False
    have sel: "csv_read_selected fs table_name table_schema client op table =
        read_csv fs path (table_schema table) None None"
      using False assms(1) h index_and_length [of "sel_selections op" "map fst file_columns"]
      by (auto simp: csv_read_selected_def Let_def)
    from read_csv_all [of fs path file_columns "table_schema table" None] assms(2,3,4) sel False
    show ?thesis by auto
  qed
qed

text \<open>
  C10 on the code. The file of the table \<open>t\<close> has the header \<open>a, b, c\<close>, its schema types
  \<open>c\<close> as a timestamp, and the selection requests \<open>a\<close> and \<open>b\<close>, both in the header. The
  pre-execution reads the file with \<open>usecols = [a, b]\<close> and \<open>parse_dates = [c]\<close>, which
  raises: no entry is created, whatever \<open>merge_scope\<close> does.
\<close>

theorem csv_pruned_read_raises:
  "\<forall>ops_after_merge.
     csv_pre_execute_selection example_fs example_physical_tables example_table_name
       example_dated_schema ops_after_merge
       \<lparr>sel_table = example_table, sel_selections = [''a'', ''b'']\<rparr> example_client Map.empty None
     = Inl ValueError"
  by (simp add: csv_pre_execute_selection_def csv_read_selected_def read_csv_def index_and_def
      example_fs_def example_client_def example_physical_tables_def example_table_name_def
      example_dated_schema_def Let_def)

text \<open>
  The same selection with a schema without timestamps. When \<open>merge_scope\<close> merges into
  its receiver, the scope returned holds the table with the requested columns only, and
  with every column when a requested name is not in the header; when \<open>merge_scope\<close>
  returns the merged scope, line 121 discards it and the scope returned is empty.
\<close>

lemma csv_pre_execute_selection_examples:
  "csv_pre_execute_selection example_fs example_physical_tables example_table_name
      example_plain_schema merge_scope_in_place
      \<lparr>sel_table = example_table, sel_selections = [''a'', ''b'']\<rparr> example_client Map.empty None
   = Inr (Map.empty ++ scope_item (OpKey example_table)
       (DataFrame \<lparr>df_index_name = None, df_index = [0, 1],
                   df_columns = [(''a'', [1, 2]), (''b'', [3, 4])]\<rparr>) None)
   \<and> csv_pre_execute_selection example_fs example_physical_tables example_table_name
      example_plain_schema merge_scope_in_place
      \<lparr>sel_table = example_table, sel_selections = [''a'', ''z'']\<rparr> example_client Map.empty None
   = Inr (Map.empty ++ scope_item (OpKey example_table)
       (DataFrame \<lparr>df_index_name = None, df_index = [0, 1],
                   df_columns = [(''a'', [1, 2]), (''b'', [3, 4]), (''c'', [5, 6])]\<rparr>) None)
   \<and> csv_pre_execute_selection example_fs example_physical_tables example_table_name
      example_plain_schema merge_scope_returned
      \<lparr>sel_table = example_table, sel_selections = [''a'', ''b'']\<rparr> example_client Map.empty None
   = Inr Map.empty"
  by (simp add: csv_pre_execute_selection_def csv_read_selected_def read_csv_def index_and_def
      example_fs_def example_client_def example_physical_tables_def example_table_name_def
      example_plain_schema_def merge_scope_in_place_def merge_scope_returned_def
      scope_item_def Let_def)

end
